theory Spec2Isabelle
  imports Complex_Main
begin

section \<open>Values, errors and configuration constants\<close>

text \<open>
  The program \<^verbatim>\<open>drift_gui_pygame.py\<close> is one module: configuration constants, the
  function \<^verbatim>\<open>find_joystick\<close>, and a main loop whose body first handles the pending
  events and then polls the open joystick, normalises the readings and classifies drift.

  Python floats are modelled as reals. Every property below rests on comparisons and on the
  three arithmetic forms \<^verbatim>\<open>(v + 1.0) / 2.0\<close>, \<^verbatim>\<open>deadzone - 0.01\<close> and
  \<^verbatim>\<open>deadzone + 0.01\<close>; rounding and NaN are outside the model.

  An out-of-range list read raises \<^verbatim>\<open>IndexError\<close> in Python. Reads are modelled by
  \<open>py_index\<close>, which returns the error as a value, so that a guard that fails to protect
  a read shows up as an \<open>Inl\<close> result. All indices of the program are non-negative
  constants.
\<close>

datatype error = IndexError

definition py_index :: "'a list \<Rightarrow> nat \<Rightarrow> error + 'a" where
  "py_index xs i = (if i < length xs then Inr (xs ! i) else Inl IndexError)"

fun bind_result :: "error + 'a \<Rightarrow> ('a \<Rightarrow> error + 'b) \<Rightarrow> error + 'b" where
  "bind_result (Inl e) f = Inl e"
| "bind_result (Inr x) f = f x"

definition DEADZONE :: real where
  "DEADZONE = 0.06"

definition AXIS_LX :: nat where "AXIS_LX = 0"
definition AXIS_LY :: nat where "AXIS_LY = 1"
definition AXIS_RX :: nat where "AXIS_RX = 2"
definition AXIS_RY :: nat where "AXIS_RY = 3"
definition AXIS_L2 :: nat where "AXIS_L2 = 4"
definition AXIS_R2 :: nat where "AXIS_R2 = 5"

definition BTN_X :: nat where "BTN_X = 0"
definition BTN_CIRCLE :: nat where "BTN_CIRCLE = 1"
definition BTN_SQUARE :: nat where "BTN_SQUARE = 2"
definition BTN_TRIANGLE :: nat where "BTN_TRIANGLE = 3"
definition BTN_L2 :: nat where "BTN_L2 = 6"
definition BTN_R2 :: nat where "BTN_R2 = 7"
definition BTN_PS :: nat where "BTN_PS = 12"
definition BTN_TOUCH :: nat where "BTN_TOUCH = 13"

section \<open>Trigger normalisation\<close>

text \<open>
  \<^verbatim>\<open>
  def norm_trigger(v):
      if v >= -1.0 and v <= 1.0:
          if v < -0.2:  # treat -1..1 range
              return (v + 1.0) / 2.0
          else:
              return v  # already 0..1
      return 0.0
  \<close>
\<close>

definition norm_trigger :: "real \<Rightarrow> real" where
  "norm_trigger v =
     (if v \<ge> - 1.0 \<and> v \<le> 1.0
      then (if v < - 0.2 then (v + 1.0) / 2.0 else v)
      else 0.0)"

section \<open>The joystick and one poll of its readings\<close>

text \<open>
  A joystick handle answers \<^verbatim>\<open>get_numaxes\<close>, \<^verbatim>\<open>get_axis(i)\<close> and their button and hat
  counterparts. The record holds what the handle reports at the time of the poll; the
  program only ever calls the getters with \<open>i\<close> below the matching count.
\<close>

record device =
  dev_axes :: "real list"
  dev_buttons :: "bool list"
  dev_hats :: "(int \<times> int) list"

definition get_numaxes :: "device \<Rightarrow> nat" where
  "get_numaxes j = length (dev_axes j)"

definition get_numbuttons :: "device \<Rightarrow> nat" where
  "get_numbuttons j = length (dev_buttons j)"

definition get_numhats :: "device \<Rightarrow> nat" where
  "get_numhats j = length (dev_hats j)"

definition get_axis :: "device \<Rightarrow> nat \<Rightarrow> real" where
  "get_axis j i = dev_axes j ! i"

definition get_button :: "device \<Rightarrow> nat \<Rightarrow> bool" where
  "get_button j i = dev_buttons j ! i"

definition get_hat :: "device \<Rightarrow> nat \<Rightarrow> int \<times> int" where
  "get_hat j i = dev_hats j ! i"

text \<open>
  Lines 198-200:
  \<^verbatim>\<open>axes = [joystick.get_axis(i) for i in range(joystick.get_numaxes())] if joystick else []\<close>
  and the same for buttons and hats.
\<close>

definition poll_axes :: "device option \<Rightarrow> real list" where
  "poll_axes joy = (case joy of
       Some j \<Rightarrow> map (get_axis j) [0 ..< get_numaxes j]
     | None \<Rightarrow> [])"

definition poll_buttons :: "device option \<Rightarrow> bool list" where
  "poll_buttons joy = (case joy of
       Some j \<Rightarrow> map (get_button j) [0 ..< get_numbuttons j]
     | None \<Rightarrow> [])"

definition poll_hats :: "device option \<Rightarrow> (int \<times> int) list" where
  "poll_hats joy = (case joy of
       Some j \<Rightarrow> map (get_hat j) [0 ..< get_numhats j]
     | None \<Rightarrow> [])"

section \<open>Normalisation and drift classification of one snapshot\<close>

text \<open>
  Lines 203-206, one per stick axis:
  \<^verbatim>\<open>lx = axes[AXIS_LX] if len(axes) > AXIS_LX else 0.0\<close>
\<close>

definition axis_or_zero :: "real list \<Rightarrow> nat \<Rightarrow> error + real" where
  "axis_or_zero axs i = (if length axs > i then py_index axs i else Inr 0.0)"

text \<open>
  Lines 233-235 and 244: \<^verbatim>\<open>if len(buttons) > index and buttons[index]: draw_glow(...)\<close>.
  Python's \<^verbatim>\<open>and\<close> reads \<^verbatim>\<open>buttons[index]\<close> only when the length test holds. The result
  says whether the glow is drawn.
\<close>

definition highlight_if_button :: "bool list \<Rightarrow> nat \<Rightarrow> error + bool" where
  "highlight_if_button bts index =
     (if length bts > index then py_index bts index else Inr False)"

text \<open>
  Lines 248-251:
  \<^verbatim>\<open>
  if len(hats) > 0:
      hatx, haty = hats[0]
      if hatx != 0 or haty != 0:
          draw_glow(screen, pos["dpad"], ...)
  \<close>
\<close>

definition dpad_glow :: "(int \<times> int) list \<Rightarrow> error + bool" where
  "dpad_glow hts =
     (if length hts > 0
      then bind_result (py_index hts 0) (\<lambda>(hatx, haty). Inr (hatx \<noteq> 0 \<or> haty \<noteq> 0))
      else Inr False)"

text \<open>
  Lines 254-255:
  \<^verbatim>\<open>l2_val = axes[AXIS_L2] if len(axes) > AXIS_L2 else (buttons[BTN_L2] if len(buttons)>BTN_L2 else 0.0)\<close>
  A button reading used as a number is \<open>1\<close> when pressed and \<open>0\<close> otherwise, as a Python
  \<^verbatim>\<open>bool\<close> is in comparisons and arithmetic.
\<close>

definition trigger_raw :: "real list \<Rightarrow> bool list \<Rightarrow> nat \<Rightarrow> nat \<Rightarrow> error + real" where
  "trigger_raw axs bts axis_index btn_index =
     (if length axs > axis_index then py_index axs axis_index
      else (if length bts > btn_index
            then bind_result (py_index bts btn_index) (\<lambda>b. Inr (of_bool b))
            else Inr 0.0))"

text \<open>
  The variables that the polling branch of the loop body assigns (lines 198-267), and the
  glows it draws for buttons and d-pad.
\<close>

record frame =
  axes :: "real list"
  buttons :: "bool list"
  hats :: "(int \<times> int) list"
  lx :: real
  ly :: real
  rx :: real
  ry :: real
  drifting_left :: bool
  drifting_right :: bool
  glow_button_cross :: bool
  glow_button_circle :: bool
  glow_button_square :: bool
  glow_button_triangle :: bool
  glow_touchpad :: bool
  glow_ps_button :: bool
  glow_dpad :: bool
  l2_val :: real
  r2_val :: real
  l2n :: real
  r2n :: real

definition tick_values ::
  "real list \<Rightarrow> bool list \<Rightarrow> (int \<times> int) list \<Rightarrow> real \<Rightarrow> error + frame" where
  "tick_values axs bts hts dz =
     bind_result (axis_or_zero axs AXIS_LX) (\<lambda>vlx.
     bind_result (axis_or_zero axs AXIS_LY) (\<lambda>vly.
     bind_result (axis_or_zero axs AXIS_RX) (\<lambda>vrx.
     bind_result (axis_or_zero axs AXIS_RY) (\<lambda>vry.
     bind_result (highlight_if_button bts BTN_X) (\<lambda>g_cross.
     bind_result (highlight_if_button bts BTN_CIRCLE) (\<lambda>g_circle.
     bind_result (highlight_if_button bts BTN_SQUARE) (\<lambda>g_square.
     bind_result (highlight_if_button bts BTN_TRIANGLE) (\<lambda>g_triangle.
     bind_result (highlight_if_button bts BTN_TOUCH) (\<lambda>g_touch.
     bind_result (highlight_if_button bts BTN_PS) (\<lambda>g_ps.
     bind_result (dpad_glow hts) (\<lambda>g_dpad.
     bind_result (trigger_raw axs bts AXIS_L2 BTN_L2) (\<lambda>vl2.
     bind_result (trigger_raw axs bts AXIS_R2 BTN_R2) (\<lambda>vr2.
     Inr \<lparr> axes = axs, buttons = bts, hats = hts,
           lx = vlx, ly = vly, rx = vrx, ry = vry,
           drifting_left = (\<bar>vlx\<bar> > dz \<or> \<bar>vly\<bar> > dz),
           drifting_right = (\<bar>vrx\<bar> > dz \<or> \<bar>vry\<bar> > dz),
           glow_button_cross = g_cross, glow_button_circle = g_circle,
           glow_button_square = g_square, glow_button_triangle = g_triangle,
           glow_touchpad = g_touch, glow_ps_button = g_ps, glow_dpad = g_dpad,
           l2_val = vl2, r2_val = vr2,
           l2n = norm_trigger vl2, r2n = norm_trigger vr2 \<rparr>)))))))))))))"

text \<open>
  Lines 270 and 276-277: \<^verbatim>\<open>bar_w = 140\<close> and the width of the filled part of a trigger
  bar, \<^verbatim>\<open>int(bar_w * l2n)\<close>. Python's \<^verbatim>\<open>int\<close> on a float truncates towards zero.
\<close>

definition bar_w :: real where
  "bar_w = 140"

definition py_int :: "real \<Rightarrow> int" where
  "py_int x = (if 0 \<le> x then \<lfloor>x\<rfloor> else \<lceil>x\<rceil>)"

definition trigger_bar_width :: "real \<Rightarrow> int" where
  "trigger_bar_width n = py_int (bar_w * n)"

section \<open>The module state and the main loop\<close>

text \<open>
  The module-level variables that the loop reads and writes: the open joystick (or
  \<^verbatim>\<open>None\<close>), \<^verbatim>\<open>deadzone\<close>, \<^verbatim>\<open>show_debug\<close>, \<^verbatim>\<open>running\<close>, and the variables of the polling
  branch, which are unbound until that branch first runs.
\<close>

record gstate =
  joystick :: "device option"
  deadzone :: real
  show_debug :: bool
  running :: bool
  tick_vars :: "frame option"

text \<open>
  \<^verbatim>\<open>
  def find_joystick():
      global joystick
      if pygame.joystick.get_count() == 0:
          joystick = None
          return False
      joystick = pygame.joystick.Joystick(0)
      joystick.init()
      return True
  \<close>
  The argument \<open>devs\<close> is the list of attached devices that pygame enumerates.
\<close>

definition find_joystick :: "device list \<Rightarrow> gstate \<Rightarrow> gstate \<times> bool" where
  "find_joystick devs s =
     (if length devs = 0 then (s\<lparr>joystick := None\<rparr>, False)
      else (s\<lparr>joystick := Some (devs ! 0)\<rparr>, True))"

text \<open>Lines 87 and 123-124: the state when the main loop starts.\<close>

definition init_state :: "device list \<Rightarrow> gstate" where
  "init_state devs =
     fst (find_joystick devs
       \<lparr> joystick = None, deadzone = DEADZONE, show_debug = True, running = True,
         tick_vars = None \<rparr>)"

datatype key = K_d | K_UP | K_DOWN | K_v | K_other

datatype event = QUIT | JOYDEVICEADDED | JOYDEVICEREMOVED | KEYDOWN key | OTHER_EVENT

text \<open>
  Lines 162-182, the body of \<^verbatim>\<open>for ev in pygame.event.get()\<close>. The vibration test on
  \<^verbatim>\<open>K_v\<close> talks to the haptics driver only and assigns no module variable.
\<close>

definition handle_event :: "device list \<Rightarrow> gstate \<Rightarrow> event \<Rightarrow> gstate" where
  "handle_event devs s ev = (case ev of
       QUIT \<Rightarrow> s\<lparr>running := False\<rparr>
     | JOYDEVICEADDED \<Rightarrow> fst (find_joystick devs s)
     | JOYDEVICEREMOVED \<Rightarrow> fst (find_joystick devs s)
     | KEYDOWN k \<Rightarrow> (case k of
           K_d \<Rightarrow> s\<lparr>show_debug := \<not> show_debug s\<rparr>
         | K_UP \<Rightarrow> s\<lparr>deadzone := max 0.0 (deadzone s - 0.01)\<rparr>
         | K_DOWN \<Rightarrow> s\<lparr>deadzone := min 0.5 (deadzone s + 0.01)\<rparr>
         | K_v \<Rightarrow> s
         | K_other \<Rightarrow> s)
     | OTHER_EVENT \<Rightarrow> s)"

text \<open>
  Lines 192-297. Without a joystick only a message is drawn. Otherwise
  \<^verbatim>\<open>pygame.event.pump()\<close> brings the handle's readings up to date (\<open>hw\<close> is what the
  hardware reports now), the three sequences are polled, and the values of the tick are
  computed and stored. An \<^verbatim>\<open>IndexError\<close> would end the program.
\<close>

definition poll_phase :: "device \<Rightarrow> gstate \<Rightarrow> error + gstate" where
  "poll_phase hw s = (case joystick s of
       None \<Rightarrow> Inr s
     | Some j \<Rightarrow>
         (let s1 = s\<lparr>joystick := Some hw\<rparr> in
          bind_result
            (tick_values (poll_axes (joystick s1)) (poll_buttons (joystick s1))
               (poll_hats (joystick s1)) (deadzone s1))
            (\<lambda>f. Inr (s1\<lparr>tick_vars := Some f\<rparr>))))"

text \<open>One iteration of \<^verbatim>\<open>while running\<close>: the event phase, then the polling phase.\<close>

definition loop_body :: "device list \<Rightarrow> event list \<Rightarrow> device \<Rightarrow> gstate \<Rightarrow> error + gstate" where
  "loop_body devs evs hw s = poll_phase hw (foldl (handle_event devs) s evs)"

text \<open>
  The loop, run on the inputs of finitely many iterations: each gives the attached devices,
  the pending events and the hardware readings of that iteration.
\<close>

fun main_loop :: "(device list \<times> event list \<times> device) list \<Rightarrow> gstate \<Rightarrow> error + gstate" where
  "main_loop [] s = Inr s"
| "main_loop ((devs, evs, hw) # rest) s =
     (if running s then bind_result (loop_body devs evs hw s) (main_loop rest) else Inr s)"

section \<open>Auxiliary facts\<close>

lemmas index_defs =
  AXIS_LX_def AXIS_LY_def AXIS_RX_def AXIS_RY_def AXIS_L2_def AXIS_R2_def
  BTN_X_def BTN_CIRCLE_def BTN_SQUARE_def BTN_TRIANGLE_def BTN_L2_def BTN_R2_def
  BTN_PS_def BTN_TOUCH_def

lemma poll_axes_Some: "poll_axes (Some j) = dev_axes j"
  by (auto simp: poll_axes_def get_axis_def get_numaxes_def intro!: nth_equalityI)

lemma poll_buttons_Some: "poll_buttons (Some j) = dev_buttons j"
  by (auto simp: poll_buttons_def get_button_def get_numbuttons_def intro!: nth_equalityI)

lemma poll_hats_Some: "poll_hats (Some j) = dev_hats j"
  by (auto simp: poll_hats_def get_hat_def get_numhats_def intro!: nth_equalityI)

lemma axis_or_zero_eq:
  "axis_or_zero axs i = Inr (if length axs > i then axs ! i else 0)"
  by (simp add: axis_or_zero_def py_index_def)

lemma highlight_if_button_eq:
  "highlight_if_button bts i = Inr (length bts > i \<and> bts ! i)"
  by (simp add: highlight_if_button_def py_index_def)

lemma dpad_glow_eq:
  "dpad_glow hts = Inr (length hts > 0 \<and> (fst (hts ! 0) \<noteq> 0 \<or> snd (hts ! 0) \<noteq> 0))"
  by (simp add: dpad_glow_def py_index_def split: prod.splits)

lemma trigger_raw_eq:
  "trigger_raw axs bts ai bi =
     Inr (if length axs > ai then axs ! ai
          else if length bts > bi then of_bool (bts ! bi) else 0)"
  by (simp add: trigger_raw_def py_index_def)

lemmas read_eqs = axis_or_zero_eq highlight_if_button_eq dpad_glow_eq trigger_raw_eq

lemma tick_values_eq:
  "tick_values axs bts hts dz =
     Inr \<lparr> axes = axs, buttons = bts, hats = hts,
           lx = (if length axs > AXIS_LX then axs ! AXIS_LX else 0),
           ly = (if length axs > AXIS_LY then axs ! AXIS_LY else 0),
           rx = (if length axs > AXIS_RX then axs ! AXIS_RX else 0),
           ry = (if length axs > AXIS_RY then axs ! AXIS_RY else 0),
           drifting_left =
             (\<bar>if length axs > AXIS_LX then axs ! AXIS_LX else 0\<bar> > dz
              \<or> \<bar>if length axs > AXIS_LY then axs ! AXIS_LY else 0\<bar> > dz),
           drifting_right =
             (\<bar>if length axs > AXIS_RX then axs ! AXIS_RX else 0\<bar> > dz
              \<or> \<bar>if length axs > AXIS_RY then axs ! AXIS_RY else 0\<bar> > dz),
           glow_button_cross = (length bts > BTN_X \<and> bts ! BTN_X),
           glow_button_circle = (length bts > BTN_CIRCLE \<and> bts ! BTN_CIRCLE),
           glow_button_square = (length bts > BTN_SQUARE \<and> bts ! BTN_SQUARE),
           glow_button_triangle = (length bts > BTN_TRIANGLE \<and> bts ! BTN_TRIANGLE),
           glow_touchpad = (length bts > BTN_TOUCH \<and> bts ! BTN_TOUCH),
           glow_ps_button = (length bts > BTN_PS \<and> bts ! BTN_PS),
           glow_dpad = (length hts > 0 \<and> (fst (hts ! 0) \<noteq> 0 \<or> snd (hts ! 0) \<noteq> 0)),
           l2_val = (if length axs > AXIS_L2 then axs ! AXIS_L2
                     else if length bts > BTN_L2 then of_bool (bts ! BTN_L2) else 0),
           r2_val = (if length axs > AXIS_R2 then axs ! AXIS_R2
                     else if length bts > BTN_R2 then of_bool (bts ! BTN_R2) else 0),
           l2n = norm_trigger (if length axs > AXIS_L2 then axs ! AXIS_L2
                     else if length bts > BTN_L2 then of_bool (bts ! BTN_L2) else 0),
           r2n = norm_trigger (if length axs > AXIS_R2 then axs ! AXIS_R2
                     else if length bts > BTN_R2 then of_bool (bts ! BTN_R2) else 0) \<rparr>"
  unfolding tick_values_def read_eqs bind_result.simps ..

lemma poll_phase_None: "joystick s = None \<Longrightarrow> poll_phase hw s = Inr s"
  by (simp add: poll_phase_def)

lemma poll_phase_Some:
  "joystick s = Some j \<Longrightarrow>
   \<exists>f. tick_values (dev_axes hw) (dev_buttons hw) (dev_hats hw) (deadzone s) = Inr f
      \<and> poll_phase hw s = Inr (s\<lparr>joystick := Some hw, tick_vars := Some f\<rparr>)"
  by (simp add: poll_phase_def poll_axes_Some poll_buttons_Some poll_hats_Some tick_values_eq)

lemma poll_phase_total: "\<exists>s'. poll_phase hw s = Inr s'"
proof (cases "joystick s")
  case None
  then show ?thesis by (simp add: poll_phase_None)
next
  case (Some j)
  from poll_phase_Some [OF this, of hw] show ?thesis by blast
qed

lemma poll_phase_config:
  "poll_phase hw s = Inr s' \<Longrightarrow>
   deadzone s' = deadzone s \<and> show_debug s' = show_debug s \<and> running s' = running s"
proof (cases "joystick s")
  case None
  assume "poll_phase hw s = Inr s'"
  with None show ?thesis by (simp add: poll_phase_None)
next
  case (Some j)
  assume r: "poll_phase hw s = Inr s'"
  from poll_phase_Some [OF Some, of hw] r show ?thesis by auto
qed

lemma loop_body_total: "\<exists>s'. loop_body devs evs hw s = Inr s'"
  by (simp add: loop_body_def poll_phase_total)

lemma main_loop_total: "\<exists>s'. main_loop inputs s = Inr s'"
proof (induction inputs arbitrary: s)
  case Nil
  then show ?case by simp
next
  case (Cons a inputs)
  obtain devs evs hw where a: "a = (devs, evs, hw)" by (cases a) auto
  obtain s1 where s1: "loop_body devs evs hw s = Inr s1"
    using loop_body_total by blast
  from Cons.IH [of s1] a s1 show ?case by simp
qed

lemma handle_event_deadzone:
  "deadzone (handle_event devs s ev) =
     (if ev = KEYDOWN K_UP then max 0 (deadzone s - 0.01)
      else if ev = KEYDOWN K_DOWN then min 0.5 (deadzone s + 0.01)
      else deadzone s)"
  by (simp add: handle_event_def find_joystick_def split: event.splits key.splits)

lemma handle_event_show_debug:
  "show_debug (handle_event devs s ev) =
     (if ev = KEYDOWN K_d then \<not> show_debug s else show_debug s)"
  by (simp add: handle_event_def find_joystick_def split: event.splits key.splits)

lemma handle_event_deadzone_range:
  "0 \<le> deadzone s \<Longrightarrow> deadzone s \<le> 0.5 \<Longrightarrow>
   0 \<le> deadzone (handle_event devs s ev) \<and> deadzone (handle_event devs s ev) \<le> 0.5"
  unfolding handle_event_deadzone by (auto simp: min_def max_def)

lemma foldl_handle_event_deadzone_range:
  "0 \<le> deadzone s \<Longrightarrow> deadzone s \<le> 0.5 \<Longrightarrow>
   0 \<le> deadzone (foldl (handle_event devs) s evs)
   \<and> deadzone (foldl (handle_event devs) s evs) \<le> 0.5"
proof (induction evs arbitrary: s)
  case Nil
  then show ?case by simp
next
  case (Cons ev evs)
  from handle_event_deadzone_range [OF Cons.prems, of devs ev]
  show ?case using Cons.IH [of "handle_event devs s ev"] by simp
qed

lemma loop_body_deadzone_range:
  assumes "0 \<le> deadzone s" "deadzone s \<le> 0.5" "loop_body devs evs hw s = Inr s'"
  shows "0 \<le> deadzone s' \<and> deadzone s' \<le> 0.5"
  using foldl_handle_event_deadzone_range [OF assms(1,2), of devs evs]
    poll_phase_config [of hw "foldl (handle_event devs) s evs" s'] assms(3)
  by (simp add: loop_body_def)

lemma main_loop_deadzone_range:
  "0 \<le> deadzone s \<Longrightarrow> deadzone s \<le> 0.5 \<Longrightarrow> main_loop inputs s = Inr s' \<Longrightarrow>
   0 \<le> deadzone s' \<and> deadzone s' \<le> 0.5"
proof (induction inputs arbitrary: s)
  case Nil
  then show ?case by simp
next
  case (Cons a inputs)
  obtain devs evs hw where a: "a = (devs, evs, hw)" by (cases a) auto
  show ?case
  proof (cases "running s")
    case False
    with Cons.prems a show ?thesis by simp
  next
    case True
    obtain s1 where s1: "loop_body devs evs hw s = Inr s1"
      using loop_body_total by blast
    from loop_body_deadzone_range [OF Cons.prems(1,2) s1]
    have "0 \<le> deadzone s1" "deadzone s1 \<le> 0.5" by simp_all
    moreover from Cons.prems(3) a True s1 have "main_loop inputs s1 = Inr s'" by simp
    ultimately show ?thesis by (rule Cons.IH)
  qed
qed

lemma init_state_deadzone: "deadzone (init_state devs) = 0.06"
  by (simp add: init_state_def find_joystick_def DEADZONE_def)

lemma min_step: "(0::real) \<le> k \<Longrightarrow> min h (min h (d + c) + k) = min h (d + (c + k))"
  by (auto simp: min_def)

lemma max_step: "(0::real) \<le> k \<Longrightarrow> max l (max l (d - c) - k) = max l (d - (c + k))"
  by (auto simp: max_def)

lemma real_Suc_step: "real (Suc n) * c = c + real n * (c::real)"
  by (simp add: algebra_simps)

lemma repeat_down_deadzone:
  "deadzone (foldl (handle_event devs) s (replicate n (KEYDOWN K_DOWN)))
     = (if n = 0 then deadzone s else min 0.5 (deadzone s + real n * 0.01))"
proof (induction n arbitrary: s)
  case 0
  then show ?case by simp
next
  case (Suc n)
  let ?s1 = "handle_event devs s (KEYDOWN K_DOWN)"
  have d1: "deadzone ?s1 = min 0.5 (deadzone s + 0.01)"
    by (simp add: handle_event_deadzone)
  have k: "(0::real) \<le> real n * 0.01" by simp
  have "deadzone (foldl (handle_event devs) s (replicate (Suc n) (KEYDOWN K_DOWN)))
      = deadzone (foldl (handle_event devs) ?s1 (replicate n (KEYDOWN K_DOWN)))"
    by simp
  also have "\<dots> = (if n = 0 then deadzone ?s1 else min 0.5 (deadzone ?s1 + real n * 0.01))"
    by (rule Suc.IH)
  also have "\<dots> = min 0.5 (deadzone s + real (Suc n) * 0.01)"
  proof (cases "n = 0")
    case True
    then show ?thesis by (simp add: d1)
  next
    case False
    then show ?thesis
      unfolding d1 real_Suc_step using min_step [OF k] by simp
  qed
  finally show ?case by simp
qed

lemma repeat_up_deadzone:
  "deadzone (foldl (handle_event devs) s (replicate n (KEYDOWN K_UP)))
     = (if n = 0 then deadzone s else max 0 (deadzone s - real n * 0.01))"
proof (induction n arbitrary: s)
  case 0
  then show ?case by simp
next
  case (Suc n)
  let ?s1 = "handle_event devs s (KEYDOWN K_UP)"
  have d1: "deadzone ?s1 = max 0 (deadzone s - 0.01)"
    by (simp add: handle_event_deadzone)
  have k: "(0::real) \<le> real n * 0.01" by simp
  have "deadzone (foldl (handle_event devs) s (replicate (Suc n) (KEYDOWN K_UP)))
      = deadzone (foldl (handle_event devs) ?s1 (replicate n (KEYDOWN K_UP)))"
    by simp
  also have "\<dots> = (if n = 0 then deadzone ?s1 else max 0 (deadzone ?s1 - real n * 0.01))"
    by (rule Suc.IH)
  also have "\<dots> = max 0 (deadzone s - real (Suc n) * 0.01)"
  proof (cases "n = 0")
    case True
    then show ?thesis by (simp add: d1)
  next
    case False
    then show ?thesis
      unfolding d1 real_Suc_step using max_step [OF k] by simp
  qed
  finally show ?case by simp
qed

lemma find_joystick_config:
  "deadzone (fst (find_joystick devs s)) = deadzone s
   \<and> show_debug (fst (find_joystick devs s)) = show_debug s"
  by (simp add: find_joystick_def)

lemma tick_values_sticks:
  "\<exists>f. tick_values axs bts hts dz = Inr f
     \<and> lx f = (if length axs > AXIS_LX then axs ! AXIS_LX else 0)
     \<and> ly f = (if length axs > AXIS_LY then axs ! AXIS_LY else 0)
     \<and> rx f = (if length axs > AXIS_RX then axs ! AXIS_RX else 0)
     \<and> ry f = (if length axs > AXIS_RY then axs ! AXIS_RY else 0)
     \<and> drifting_left f = (\<bar>lx f\<bar> > dz \<or> \<bar>ly f\<bar> > dz)
     \<and> drifting_right f = (\<bar>rx f\<bar> > dz \<or> \<bar>ry f\<bar> > dz)"
  by (simp add: tick_values_eq)

lemma foldl_handle_event_config:
  "(\<forall>ev \<in> set evs. \<forall>k. ev \<noteq> KEYDOWN k) \<Longrightarrow>
   deadzone (foldl (handle_event devs) s evs) = deadzone s
   \<and> show_debug (foldl (handle_event devs) s evs) = show_debug s"
proof (induction evs arbitrary: s)
  case Nil
  then show ?case by simp
next
  case (Cons ev evs)
  from Cons.prems have ev: "\<forall>k. ev \<noteq> KEYDOWN k"
    and rest: "\<forall>ev \<in> set evs. \<forall>k. ev \<noteq> KEYDOWN k" by simp_all
  from ev have "deadzone (handle_event devs s ev) = deadzone s"
    "show_debug (handle_event devs s ev) = show_debug s"
    by (simp_all add: handle_event_deadzone handle_event_show_debug)
  with Cons.IH [OF rest, of "handle_event devs s ev"] show ?case by simp
qed

lemma norm_trigger_zero: "norm_trigger 0 = 0"
  by (simp add: norm_trigger_def)

lemma tick_values_empty:
  "0 \<le> dz \<Longrightarrow>
   \<exists>f. tick_values [] [] [] dz = Inr f
      \<and> axes f = [] \<and> buttons f = [] \<and> hats f = []
      \<and> lx f = 0 \<and> ly f = 0 \<and> rx f = 0 \<and> ry f = 0
      \<and> l2_val f = 0 \<and> r2_val f = 0 \<and> l2n f = 0 \<and> r2n f = 0
      \<and> \<not> glow_button_cross f \<and> \<not> glow_button_circle f \<and> \<not> glow_button_square f
      \<and> \<not> glow_button_triangle f \<and> \<not> glow_touchpad f \<and> \<not> glow_ps_button f
      \<and> \<not> glow_dpad f
      \<and> \<not> drifting_left f \<and> \<not> drifting_right f"
  by (simp add: tick_values_eq norm_trigger_zero)

section \<open>Properties of trigger normalisation\<close>

text \<open>
  C1. Trigger normalisation follows the dual-range heuristic exactly: an input in
  \<open>[-1, 1]\<close> below \<open>-0.2\<close> is mapped to \<open>(v + 1) / 2\<close>, an input in \<open>[-1, 1]\<close> that is at
  least \<open>-0.2\<close> is returned unchanged, and an input outside \<open>[-1, 1]\<close> gives \<open>0\<close>. The five
  sample values of the specification are \<open>-1 \<mapsto> 0\<close>, \<open>-0.3 \<mapsto> 0.35\<close>, \<open>0 \<mapsto> 0\<close>,
  \<open>0.7 \<mapsto> 0.7\<close> and \<open>1.5 \<mapsto> 0\<close>.
\<close>

theorem norm_trigger_dual_range:
  "(- 1.0 \<le> v \<and> v \<le> 1.0 \<and> v < - 0.2 \<longrightarrow> norm_trigger v = (v + 1.0) / 2.0)
   \<and> (- 1.0 \<le> v \<and> v \<le> 1.0 \<and> v \<ge> - 0.2 \<longrightarrow> norm_trigger v = v)
   \<and> (v < - 1.0 \<or> v > 1.0 \<longrightarrow> norm_trigger v = 0.0)
   \<and> norm_trigger (- 1.0) = 0.0
   \<and> norm_trigger (- 0.3) = 0.35
   \<and> norm_trigger 0.0 = 0.0
   \<and> norm_trigger 0.7 = 0.7
   \<and> norm_trigger 1.5 = 0.0"
  by (simp add: norm_trigger_def)

theorem norm_trigger_dual_range_witness:
  "(- 1.0 \<le> (- 0.5 :: real) \<and> (- 0.5 :: real) \<le> 1.0 \<and> (- 0.5 :: real) < - 0.2)
   \<and> norm_trigger (- 0.5) = 0.25
   \<and> (- 1.0 \<le> (0.8 :: real) \<and> (0.8 :: real) \<le> 1.0 \<and> (0.8 :: real) \<ge> - 0.2)
   \<and> norm_trigger 0.8 = 0.8
   \<and> ((2 :: real) > 1.0)
   \<and> norm_trigger 2 = 0"
  using norm_trigger_dual_range [of "- 0.5"] norm_trigger_dual_range [of "0.8"]
    norm_trigger_dual_range [of 2]
  by simp

text \<open>
  C9. For every input the output of trigger normalisation lies in \<open>[-0.2, 1]\<close>. The lower
  bound \<open>-0.2\<close> is attained, at the input \<open>-0.2\<close>: an input in \<open>[-0.2, 0)\<close> is returned
  unchanged and is not clamped to \<open>0\<close>.
\<close>

theorem norm_trigger_range:
  "- 0.2 \<le> norm_trigger v \<and> norm_trigger v \<le> 1.0
   \<and> norm_trigger (- 0.2) = - 0.2
   \<and> (- 0.2 \<le> v \<and> v < 0 \<longrightarrow> norm_trigger v = v \<and> norm_trigger v \<noteq> 0)"
  by (simp add: norm_trigger_def)

theorem norm_trigger_range_witness:
  "- 0.2 \<le> (- 0.1 :: real) \<and> (- 0.1 :: real) < 0
   \<and> - 0.2 \<le> norm_trigger (- 0.1) \<and> norm_trigger (- 0.1) \<le> 1.0
   \<and> norm_trigger (- 0.1) = - 0.1"
  using norm_trigger_range [of "- 0.1"] by simp

text \<open>
  C10. Trigger normalisation is idempotent: normalising a normalised value changes nothing.
\<close>

theorem norm_trigger_idempotent:
  "norm_trigger (norm_trigger v) = norm_trigger v"
  by (simp add: norm_trigger_def)

text \<open>
  C2. Every normalised trigger value is meant to be a scalar in \<open>[0, 1]\<close>: the source
  announces the step as normalising to \<^verbatim>\<open>0..1\<close> (line 257) and marks the pass-through
  branch \<^verbatim>\<open>already 0..1\<close> (line 263). The code does not keep to that. An L2 axis
  reading of \<open>-0.1\<close> is inside \<open>[-1, 1]\<close> and not below the cutoff \<open>-0.2\<close>, so it is
  returned unchanged: the normalised value is \<open>-0.1\<close>, below \<open>0\<close>, and the trigger bar is
  drawn with the width \<open>-14\<close>.
\<close>

theorem norm_trigger_below_zero:
  "norm_trigger (- 0.1) = - 0.1
   \<and> norm_trigger (- 0.1) < 0
   \<and> trigger_raw [0, 0, 0, 0, - 0.1, 0] [] AXIS_L2 BTN_L2 = Inr (- 0.1)
   \<and> trigger_bar_width (norm_trigger (- 0.1)) = - 14"
proof -
  have n: "norm_trigger (- 0.1) = - 0.1"
    by (simp add: norm_trigger_def)
  have r: "trigger_raw [0, 0, 0, 0, - 0.1, 0] [] AXIS_L2 BTN_L2 = Inr (- 0.1)"
    by (simp add: trigger_raw_eq AXIS_L2_def)
  have w: "trigger_bar_width (- 0.1) = - 14"
    by (simp add: trigger_bar_width_def py_int_def bar_w_def)
  from n r w show ?thesis by simp
qed

section \<open>Properties of the deadzone\<close>

text \<open>
  C5. The two deadzone keys change the deadzone by the fixed step \<open>0.01\<close> and clamp the
  result to \<open>[0, 0.5]\<close>: \<^verbatim>\<open>K_DOWN\<close> sets it to \<open>min 0.5 (deadzone + 0.01)\<close> and
  \<^verbatim>\<open>K_UP\<close> to \<open>max 0 (deadzone - 0.01)\<close>, so away from the bounds the change is exactly
  \<open>0.01\<close>. From \<open>0.49\<close> any positive number of increases gives \<open>0.50\<close>, from \<open>0.01\<close> any
  positive number of decreases gives \<open>0.00\<close>, and from any deadzone in \<open>[0, 0.5]\<close> fifty
  steps saturate. No other event, no rescan and no polling phase changes the deadzone.
\<close>

theorem deadzone_step_clamp:
  assumes lo: "0 \<le> deadzone s" and hi: "deadzone s \<le> 0.5"
  shows
    "deadzone (handle_event devs s (KEYDOWN K_DOWN)) = min 0.5 (deadzone s + 0.01)
     \<and> deadzone (handle_event devs s (KEYDOWN K_UP)) = max 0.0 (deadzone s - 0.01)
     \<and> (deadzone s + 0.01 \<le> 0.5 \<longrightarrow>
          deadzone (handle_event devs s (KEYDOWN K_DOWN)) = deadzone s + 0.01)
     \<and> (0.01 \<le> deadzone s \<longrightarrow>
          deadzone (handle_event devs s (KEYDOWN K_UP)) = deadzone s - 0.01)
     \<and> 0.0 \<le> deadzone (handle_event devs s ev) \<and> deadzone (handle_event devs s ev) \<le> 0.5
     \<and> (deadzone s = 0.49 \<and> 1 \<le> n \<longrightarrow>
          deadzone (foldl (handle_event devs) s (replicate n (KEYDOWN K_DOWN))) = 0.50)
     \<and> (deadzone s = 0.01 \<and> 1 \<le> n \<longrightarrow>
          deadzone (foldl (handle_event devs) s (replicate n (KEYDOWN K_UP))) = 0.00)
     \<and> (50 \<le> n \<longrightarrow>
          deadzone (foldl (handle_event devs) s (replicate n (KEYDOWN K_DOWN))) = 0.5
          \<and> deadzone (foldl (handle_event devs) s (replicate n (KEYDOWN K_UP))) = 0.0)
     \<and> (ev \<noteq> KEYDOWN K_UP \<and> ev \<noteq> KEYDOWN K_DOWN \<longrightarrow>
          deadzone (handle_event devs s ev) = deadzone s)
     \<and> deadzone (fst (find_joystick devs s)) = deadzone s
     \<and> (poll_phase hw s = Inr s' \<longrightarrow> deadzone s' = deadzone s)"
proof -
  have steps:
    "deadzone (handle_event devs s (KEYDOWN K_DOWN)) = min 0.5 (deadzone s + 0.01)"
    "deadzone (handle_event devs s (KEYDOWN K_UP)) = max 0.0 (deadzone s - 0.01)"
    by (simp_all add: handle_event_deadzone)
  have exact:
    "deadzone s + 0.01 \<le> 0.5 \<longrightarrow>
       deadzone (handle_event devs s (KEYDOWN K_DOWN)) = deadzone s + 0.01"
    "0.01 \<le> deadzone s \<longrightarrow>
       deadzone (handle_event devs s (KEYDOWN K_UP)) = deadzone s - 0.01"
    unfolding steps by (simp_all add: min_def max_def)
  have range:
    "0.0 \<le> deadzone (handle_event devs s ev) \<and> deadzone (handle_event devs s ev) \<le> 0.5"
    using handle_event_deadzone_range [OF lo hi, of devs ev] by simp
  have n_pos: "1 \<le> n \<Longrightarrow> 1 \<le> real n" by simp
  have sat_hi:
    "deadzone s = 0.49 \<and> 1 \<le> n \<longrightarrow>
       deadzone (foldl (handle_event devs) s (replicate n (KEYDOWN K_DOWN))) = 0.50"
  proof
    assume a: "deadzone s = 0.49 \<and> 1 \<le> n"
    then have "1 \<le> real n" by simp
    then have "0.5 \<le> 0.49 + real n * 0.01" by simp
    with a show "deadzone (foldl (handle_event devs) s (replicate n (KEYDOWN K_DOWN))) = 0.50"
      unfolding repeat_down_deadzone by (simp add: min_def)
  qed
  have sat_lo:
    "deadzone s = 0.01 \<and> 1 \<le> n \<longrightarrow>
       deadzone (foldl (handle_event devs) s (replicate n (KEYDOWN K_UP))) = 0.00"
  proof
    assume a: "deadzone s = 0.01 \<and> 1 \<le> n"
    then have "1 \<le> real n" by simp
    then have "0.01 - real n * 0.01 \<le> 0" by simp
    with a show "deadzone (foldl (handle_event devs) s (replicate n (KEYDOWN K_UP))) = 0.00"
      unfolding repeat_up_deadzone by (simp add: max_def)
  qed
  have sat_any:
    "50 \<le> n \<longrightarrow>
       deadzone (foldl (handle_event devs) s (replicate n (KEYDOWN K_DOWN))) = 0.5
       \<and> deadzone (foldl (handle_event devs) s (replicate n (KEYDOWN K_UP))) = 0.0"
  proof
    assume "50 \<le> n"
    then have n: "50 \<le> real n" by simp
    from n lo have "0.5 \<le> deadzone s + real n * 0.01" by simp
    moreover from n hi have "deadzone s - real n * 0.01 \<le> 0" by simp
    ultimately show
      "deadzone (foldl (handle_event devs) s (replicate n (KEYDOWN K_DOWN))) = 0.5
       \<and> deadzone (foldl (handle_event devs) s (replicate n (KEYDOWN K_UP))) = 0.0"
      unfolding repeat_down_deadzone repeat_up_deadzone
      by (simp add: min_def max_def)
  qed
  have others:
    "ev \<noteq> KEYDOWN K_UP \<and> ev \<noteq> KEYDOWN K_DOWN \<longrightarrow>
       deadzone (handle_event devs s ev) = deadzone s"
    by (simp add: handle_event_deadzone)
  have rescan: "deadzone (fst (find_joystick devs s)) = deadzone s"
    by (simp add: find_joystick_config)
  have poll: "poll_phase hw s = Inr s' \<longrightarrow> deadzone s' = deadzone s"
    using poll_phase_config [of hw s s'] by simp
  from steps exact range sat_hi sat_lo sat_any others rescan poll
  show ?thesis by blast
qed

theorem deadzone_step_clamp_witness:
  "0 \<le> deadzone ((init_state [])\<lparr>deadzone := 0.49\<rparr>)
   \<and> deadzone ((init_state [])\<lparr>deadzone := 0.49\<rparr>) \<le> 0.5
   \<and> deadzone (handle_event [] ((init_state [])\<lparr>deadzone := 0.49\<rparr>) (KEYDOWN K_DOWN)) = 0.5
   \<and> deadzone (handle_event [] ((init_state [])\<lparr>deadzone := 0.49\<rparr>) (KEYDOWN K_UP)) = 0.48
   \<and> (1::nat) \<le> 3
   \<and> deadzone (foldl (handle_event []) ((init_state [])\<lparr>deadzone := 0.49\<rparr>)
        (replicate 3 (KEYDOWN K_DOWN))) = 0.5
   \<and> QUIT \<noteq> KEYDOWN K_UP \<and> QUIT \<noteq> KEYDOWN K_DOWN
   \<and> deadzone (handle_event [] ((init_state [])\<lparr>deadzone := 0.49\<rparr>) QUIT) = 0.49"
proof -
  let ?s = "(init_state [])\<lparr>deadzone := 0.49\<rparr>"
  have lo: "0 \<le> deadzone ?s" by simp
  have hi: "deadzone ?s \<le> 0.5" by simp
  show ?thesis
    using lo hi deadzone_step_clamp [OF lo hi, where devs = "[]" and n = 3 and ev = QUIT]
    by simp
qed

section \<open>Properties of drift classification and of missing indices\<close>

text \<open>
  C3. For every deadzone \<open>d\<close> (in particular every \<open>d\<close> in \<open>[0, 0.5]\<close>) and every stick
  reading \<open>(x, y)\<close>, the drift flag is true exactly when \<open>|x| > d\<close> or \<open>|y| > d\<close>, with strict
  inequalities. The flag is computed from the current readings and the deadzone alone:
  whatever the state held before the poll (in particular the values of the previous tick),
  the polling phase stores the same flags.
\<close>

theorem drift_classification:
  "(\<exists>f. tick_values (x # y # x' # y' # rest) bts hts d = Inr f
       \<and> lx f = x \<and> ly f = y \<and> rx f = x' \<and> ry f = y'
       \<and> drifting_left f = (\<bar>x\<bar> > d \<or> \<bar>y\<bar> > d)
       \<and> drifting_right f = (\<bar>x'\<bar> > d \<or> \<bar>y'\<bar> > d))
   \<and> (\<exists>f. tick_values axs bts hts d = Inr f
       \<and> drifting_left f = (\<bar>lx f\<bar> > d \<or> \<bar>ly f\<bar> > d)
       \<and> drifting_right f = (\<bar>rx f\<bar> > d \<or> \<bar>ry f\<bar> > d))
   \<and> (0 \<le> d \<and> d \<le> 0.5 \<and> deadzone s = d \<and> joystick s = Some j
        \<and> dev_axes hw = x # y # x' # y' # rest \<longrightarrow>
        (\<exists>s' f. poll_phase hw s = Inr s' \<and> tick_vars s' = Some f
           \<and> drifting_left f = (\<bar>x\<bar> > d \<or> \<bar>y\<bar> > d)
           \<and> drifting_right f = (\<bar>x'\<bar> > d \<or> \<bar>y'\<bar> > d)))"
proof -
  have a: "\<exists>f. tick_values (x # y # x' # y' # rest) bts' hts' d = Inr f
       \<and> lx f = x \<and> ly f = y \<and> rx f = x' \<and> ry f = y'
       \<and> drifting_left f = (\<bar>x\<bar> > d \<or> \<bar>y\<bar> > d)
       \<and> drifting_right f = (\<bar>x'\<bar> > d \<or> \<bar>y'\<bar> > d)" for bts' hts'
    by (simp add: tick_values_eq index_defs)
  have b: "\<exists>f. tick_values axs bts hts d = Inr f
       \<and> drifting_left f = (\<bar>lx f\<bar> > d \<or> \<bar>ly f\<bar> > d)
       \<and> drifting_right f = (\<bar>rx f\<bar> > d \<or> \<bar>ry f\<bar> > d)"
    using tick_values_sticks [of axs bts hts d] by blast
  have c: "0 \<le> d \<and> d \<le> 0.5 \<and> deadzone s = d \<and> joystick s = Some j
        \<and> dev_axes hw = x # y # x' # y' # rest \<longrightarrow>
        (\<exists>s' f. poll_phase hw s = Inr s' \<and> tick_vars s' = Some f
           \<and> drifting_left f = (\<bar>x\<bar> > d \<or> \<bar>y\<bar> > d)
           \<and> drifting_right f = (\<bar>x'\<bar> > d \<or> \<bar>y'\<bar> > d))"
  proof
    assume h: "0 \<le> d \<and> d \<le> 0.5 \<and> deadzone s = d \<and> joystick s = Some j
        \<and> dev_axes hw = x # y # x' # y' # rest"
    then have js: "joystick s = Some j" by simp
    from poll_phase_Some [OF js, of hw] obtain f where
      f: "tick_values (dev_axes hw) (dev_buttons hw) (dev_hats hw) (deadzone s) = Inr f"
      and p: "poll_phase hw s = Inr (s\<lparr>joystick := Some hw, tick_vars := Some f\<rparr>)"
      by blast
    from a [of "dev_buttons hw" "dev_hats hw"] f h
    have "drifting_left f = (\<bar>x\<bar> > d \<or> \<bar>y\<bar> > d)
        \<and> drifting_right f = (\<bar>x'\<bar> > d \<or> \<bar>y'\<bar> > d)"
      by auto
    with p show "\<exists>s' f. poll_phase hw s = Inr s' \<and> tick_vars s' = Some f
           \<and> drifting_left f = (\<bar>x\<bar> > d \<or> \<bar>y\<bar> > d)
           \<and> drifting_right f = (\<bar>x'\<bar> > d \<or> \<bar>y'\<bar> > d)"
      by auto
  qed
  from a [of bts hts] b c show ?thesis by blast
qed

theorem drift_classification_witness:
  "(0 :: real) \<le> 0.06 \<and> (0.06 :: real) \<le> 0.5
   \<and> deadzone (init_state [\<lparr>dev_axes = [], dev_buttons = [], dev_hats = []\<rparr>]) = 0.06
   \<and> joystick (init_state [\<lparr>dev_axes = [], dev_buttons = [], dev_hats = []\<rparr>])
       = Some \<lparr>dev_axes = [], dev_buttons = [], dev_hats = []\<rparr>
   \<and> (\<exists>s' f. poll_phase \<lparr>dev_axes = [0.02, - 0.01, 0.9, 0.0], dev_buttons = [], dev_hats = []\<rparr>
          (init_state [\<lparr>dev_axes = [], dev_buttons = [], dev_hats = []\<rparr>]) = Inr s'
        \<and> tick_vars s' = Some f \<and> \<not> drifting_left f \<and> drifting_right f)"
proof -
  let ?j = "\<lparr>dev_axes = [], dev_buttons = [], dev_hats = []\<rparr>"
  let ?hw = "\<lparr>dev_axes = [0.02, - 0.01, 0.9, 0.0], dev_buttons = [], dev_hats = []\<rparr>"
  have d: "deadzone (init_state [?j]) = 0.06" by (rule init_state_deadzone)
  have j: "joystick (init_state [?j]) = Some ?j"
    by (simp add: init_state_def find_joystick_def)
  show ?thesis
    using d j drift_classification [where d = "0.06" and s = "init_state [?j]" and j = ?j
        and hw = ?hw and x = "0.02" and y = "- 0.01" and x' = "0.9" and y' = "0.0"
        and rest = "[]"]
    by simp
qed

text \<open>
  C4. Missing-index safety: for every snapshot the computation of the tick values returns
  a result and never an \<^verbatim>\<open>IndexError\<close>; a stick axis whose index is not below the number
  of axes reads \<open>0.0\<close>, a button whose index is not below the number of buttons is not
  highlighted, a d-pad without hats is not highlighted, and a trigger whose axis is missing
  takes the fallback button's value, or \<open>0.0\<close> when that is missing too. The polling phase
  and the whole loop return a state for every input as well.
\<close>

theorem missing_index_safety:
  "(\<exists>f. tick_values axs bts hts dz = Inr f
      \<and> (length axs \<le> AXIS_LX \<longrightarrow> lx f = 0.0)
      \<and> (length axs \<le> AXIS_LY \<longrightarrow> ly f = 0.0)
      \<and> (length axs \<le> AXIS_RX \<longrightarrow> rx f = 0.0)
      \<and> (length axs \<le> AXIS_RY \<longrightarrow> ry f = 0.0)
      \<and> (length bts \<le> BTN_X \<longrightarrow> glow_button_cross f = False)
      \<and> (length bts \<le> BTN_CIRCLE \<longrightarrow> glow_button_circle f = False)
      \<and> (length bts \<le> BTN_SQUARE \<longrightarrow> glow_button_square f = False)
      \<and> (length bts \<le> BTN_TRIANGLE \<longrightarrow> glow_button_triangle f = False)
      \<and> (length bts \<le> BTN_TOUCH \<longrightarrow> glow_touchpad f = False)
      \<and> (length bts \<le> BTN_PS \<longrightarrow> glow_ps_button f = False)
      \<and> (length hts \<le> 0 \<longrightarrow> glow_dpad f = False)
      \<and> (length axs \<le> AXIS_L2 \<and> BTN_L2 < length bts \<longrightarrow> l2_val f = of_bool (bts ! BTN_L2))
      \<and> (length axs \<le> AXIS_L2 \<and> length bts \<le> BTN_L2 \<longrightarrow> l2_val f = 0.0)
      \<and> (length axs \<le> AXIS_R2 \<and> BTN_R2 < length bts \<longrightarrow> r2_val f = of_bool (bts ! BTN_R2))
      \<and> (length axs \<le> AXIS_R2 \<and> length bts \<le> BTN_R2 \<longrightarrow> r2_val f = 0.0))
   \<and> (\<exists>s'. poll_phase hw s = Inr s')
   \<and> (\<exists>s'. main_loop inputs s = Inr s')"
proof -
  have "\<exists>s'. poll_phase hw s = Inr s'" by (rule poll_phase_total)
  moreover have "\<exists>s'. main_loop inputs s = Inr s'" by (rule main_loop_total)
  ultimately show ?thesis by (simp add: tick_values_eq)
qed

theorem missing_index_safety_witness:
  "length [0.5 :: real] \<le> AXIS_LY \<and> length [True] \<le> BTN_CIRCLE
   \<and> length ([] :: (int \<times> int) list) \<le> 0
   \<and> (\<exists>f. tick_values [0.5] [True] [] 0.06 = Inr f
        \<and> ly f = 0 \<and> rx f = 0 \<and> ry f = 0
        \<and> \<not> glow_button_circle f \<and> \<not> glow_ps_button f
        \<and> \<not> glow_dpad f \<and> l2_val f = 0 \<and> r2_val f = 0)"
  using missing_index_safety [where axs = "[0.5]" and bts = "[True]" and hts = "[]"
      and dz = "0.06" and inputs = "[]" and s = "init_state []"
      and hw = "\<lparr>dev_axes = [], dev_buttons = [], dev_hats = []\<rparr>"]
  by (auto simp: index_defs)

section \<open>Properties of the loop\<close>

text \<open>
  C6. No-device scenario. In every state the loop reaches, a rescan with an empty device
  list returns \<^verbatim>\<open>False\<close> and clears the open joystick; the three polled sequences then
  have length \<open>0\<close>, and the tick values of that empty snapshot are \<open>0.0\<close> for all four
  stick axes, \<open>0\<close> for both triggers, no button highlight, no d-pad highlight (as for a hat
  at \<open>(0, 0)\<close>) and no drift on either stick. The polling phase itself changes nothing
  while no joystick is open.
\<close>

theorem no_device_defaults:
  assumes reach: "main_loop inputs (init_state devs0) = Inr s0"
    and s: "s = foldl (handle_event devs) s0 evs"
  shows "find_joystick [] s = (s\<lparr>joystick := None\<rparr>, False)
     \<and> handle_event [] s JOYDEVICEREMOVED = s\<lparr>joystick := None\<rparr>
     \<and> handle_event [] s JOYDEVICEADDED = s\<lparr>joystick := None\<rparr>
     \<and> joystick (init_state []) = None
     \<and> length (poll_axes (joystick (s\<lparr>joystick := None\<rparr>))) = 0
     \<and> length (poll_buttons (joystick (s\<lparr>joystick := None\<rparr>))) = 0
     \<and> length (poll_hats (joystick (s\<lparr>joystick := None\<rparr>))) = 0
     \<and> (\<exists>f. tick_values (poll_axes (joystick (s\<lparr>joystick := None\<rparr>)))
               (poll_buttons (joystick (s\<lparr>joystick := None\<rparr>)))
               (poll_hats (joystick (s\<lparr>joystick := None\<rparr>)))
               (deadzone (s\<lparr>joystick := None\<rparr>)) = Inr f
           \<and> lx f = 0.0 \<and> ly f = 0.0 \<and> rx f = 0.0 \<and> ry f = 0.0
           \<and> l2n f = 0 \<and> r2n f = 0
           \<and> \<not> glow_button_cross f \<and> \<not> glow_button_circle f \<and> \<not> glow_button_square f
           \<and> \<not> glow_button_triangle f \<and> \<not> glow_touchpad f \<and> \<not> glow_ps_button f
           \<and> \<not> glow_dpad f
           \<and> drifting_left f = False \<and> drifting_right f = False)
     \<and> dpad_glow [] = dpad_glow [(0, 0)]
     \<and> poll_phase hw (s\<lparr>joystick := None\<rparr>) = Inr (s\<lparr>joystick := None\<rparr>)"
proof -
  have "0 \<le> deadzone (init_state devs0)" "deadzone (init_state devs0) \<le> 0.5"
    by (simp_all add: init_state_deadzone)
  from main_loop_deadzone_range [OF this reach]
  have "0 \<le> deadzone s0" "deadzone s0 \<le> 0.5" by simp_all
  from foldl_handle_event_deadzone_range [OF this, of devs evs] s
  have dz: "0 \<le> deadzone (s\<lparr>joystick := None\<rparr>)" by simp
  have a: "find_joystick [] s = (s\<lparr>joystick := None\<rparr>, False)"
    "handle_event [] s JOYDEVICEREMOVED = s\<lparr>joystick := None\<rparr>"
    "handle_event [] s JOYDEVICEADDED = s\<lparr>joystick := None\<rparr>"
    "joystick (init_state []) = None"
    by (simp_all add: find_joystick_def handle_event_def init_state_def)
  have b: "poll_axes (joystick (s\<lparr>joystick := None\<rparr>)) = []"
    "poll_buttons (joystick (s\<lparr>joystick := None\<rparr>)) = []"
    "poll_hats (joystick (s\<lparr>joystick := None\<rparr>)) = []"
    by (simp_all add: poll_axes_def poll_buttons_def poll_hats_def)
  have c: "dpad_glow [] = dpad_glow [(0, 0)]"
    by (simp add: dpad_glow_eq)
  have d: "poll_phase hw (s\<lparr>joystick := None\<rparr>) = Inr (s\<lparr>joystick := None\<rparr>)"
    by (simp add: poll_phase_None)
  from tick_values_empty [OF dz] a b c d show ?thesis
    by auto
qed

theorem no_device_defaults_witness:
  "main_loop [] (init_state [\<lparr>dev_axes = [0.9], dev_buttons = [], dev_hats = []\<rparr>])
     = Inr (init_state [\<lparr>dev_axes = [0.9], dev_buttons = [], dev_hats = []\<rparr>])
   \<and> joystick (init_state [\<lparr>dev_axes = [0.9], dev_buttons = [], dev_hats = []\<rparr>])
       = Some \<lparr>dev_axes = [0.9], dev_buttons = [], dev_hats = []\<rparr>
   \<and> joystick (handle_event []
        (init_state [\<lparr>dev_axes = [0.9], dev_buttons = [], dev_hats = []\<rparr>])
        JOYDEVICEREMOVED) = None
   \<and> (\<exists>f. tick_values [] [] [] 0.06 = Inr f
        \<and> lx f = 0 \<and> ly f = 0 \<and> rx f = 0 \<and> ry f = 0 \<and> l2n f = 0 \<and> r2n f = 0
        \<and> \<not> drifting_left f \<and> \<not> drifting_right f)"
proof -
  let ?d = "\<lparr>dev_axes = [0.9], dev_buttons = [], dev_hats = []\<rparr>"
  have r: "main_loop [] (init_state [?d]) = Inr (init_state [?d])" by simp
  have e: "init_state [?d] = foldl (handle_event []) (init_state [?d]) []" by simp
  have j: "joystick (init_state [?d]) = Some ?d"
    by (simp add: init_state_def find_joystick_def)
  have p: "poll_axes None = []" "poll_buttons None = []" "poll_hats None = []"
    by (simp_all add: poll_axes_def poll_buttons_def poll_hats_def)
  from no_device_defaults [OF r e, where hw = ?d]
  show ?thesis using r j p by (auto simp: init_state_deadzone)
qed

text \<open>
  C7. End-to-end: with six axes \<open>[0.02, -0.01, 0.9, 0.0, -0.5, 0.8]\<close>, fourteen buttons,
  one hat and deadzone \<open>0.06\<close>, the polling phase classifies the left stick
  \<open>(0.02, -0.01)\<close> as not drifting and the right stick \<open>(0.9, 0.0)\<close> as drifting, and
  normalises the raw L2 value \<open>-0.5\<close> to \<open>0.25\<close> and the raw R2 value \<open>0.8\<close> to \<open>0.8\<close>.
\<close>

theorem end_to_end:
  assumes axs: "dev_axes hw = [0.02, - 0.01, 0.9, 0.0, - 0.5, 0.8]"
    and bts: "length (dev_buttons hw) = 14"
    and hts: "length (dev_hats hw) = 1"
    and dz: "deadzone s = 0.06"
    and js: "joystick s = Some j"
  shows "\<exists>f. poll_phase hw s = Inr (s\<lparr>joystick := Some hw, tick_vars := Some f\<rparr>)
     \<and> length (axes f) = 6 \<and> length (buttons f) = 14 \<and> length (hats f) = 1
     \<and> lx f = 0.02 \<and> ly f = - 0.01 \<and> drifting_left f = False
     \<and> rx f = 0.9 \<and> ry f = 0.0 \<and> drifting_right f = True
     \<and> l2_val f = - 0.5 \<and> l2n f = 0.25
     \<and> r2_val f = 0.8 \<and> r2n f = 0.8"
proof -
  from poll_phase_Some [OF js, of hw] obtain f where
    f: "tick_values (dev_axes hw) (dev_buttons hw) (dev_hats hw) (deadzone s) = Inr f"
    and p: "poll_phase hw s = Inr (s\<lparr>joystick := Some hw, tick_vars := Some f\<rparr>)"
    by blast
  have n: "norm_trigger (- 0.5) = 0.25" "norm_trigger 0.8 = 0.8"
    by (simp_all add: norm_trigger_def)
  from f have "length (axes f) = 6 \<and> length (buttons f) = 14 \<and> length (hats f) = 1
     \<and> lx f = 0.02 \<and> ly f = - 0.01 \<and> drifting_left f = False
     \<and> rx f = 0.9 \<and> ry f = 0.0 \<and> drifting_right f = True
     \<and> l2_val f = - 0.5 \<and> l2n f = 0.25
     \<and> r2_val f = 0.8 \<and> r2n f = 0.8"
    unfolding tick_values_eq axs dz using bts hts n by (auto simp: index_defs)
  with p show ?thesis by blast
qed

theorem end_to_end_witness:
  "dev_axes \<lparr>dev_axes = [0.02, - 0.01, 0.9, 0.0, - 0.5, 0.8],
       dev_buttons = replicate 14 False, dev_hats = [(0, 0)]\<rparr>
     = [0.02, - 0.01, 0.9, 0.0, - 0.5, 0.8]
   \<and> length (dev_buttons \<lparr>dev_axes = [0.02, - 0.01, 0.9, 0.0, - 0.5, 0.8],
       dev_buttons = replicate 14 False, dev_hats = [(0, 0)]\<rparr>) = 14
   \<and> length (dev_hats \<lparr>dev_axes = [0.02, - 0.01, 0.9, 0.0, - 0.5, 0.8],
       dev_buttons = replicate 14 False, dev_hats = [(0, 0)]\<rparr>) = 1
   \<and> deadzone (init_state [\<lparr>dev_axes = [], dev_buttons = [], dev_hats = []\<rparr>]) = 0.06
   \<and> joystick (init_state [\<lparr>dev_axes = [], dev_buttons = [], dev_hats = []\<rparr>])
       = Some \<lparr>dev_axes = [], dev_buttons = [], dev_hats = []\<rparr>
   \<and> (\<exists>s' f. poll_phase \<lparr>dev_axes = [0.02, - 0.01, 0.9, 0.0, - 0.5, 0.8],
            dev_buttons = replicate 14 False, dev_hats = [(0, 0)]\<rparr>
          (init_state [\<lparr>dev_axes = [], dev_buttons = [], dev_hats = []\<rparr>]) = Inr s'
        \<and> tick_vars s' = Some f
        \<and> \<not> drifting_left f \<and> drifting_right f \<and> l2n f = 0.25 \<and> r2n f = 0.8)"
proof -
  let ?hw = "\<lparr>dev_axes = [0.02, - 0.01, 0.9, 0.0, - 0.5, 0.8],
       dev_buttons = replicate 14 False, dev_hats = [(0, 0)]\<rparr>"
  let ?j = "\<lparr>dev_axes = [], dev_buttons = [], dev_hats = []\<rparr>"
  have a: "dev_axes ?hw = [0.02, - 0.01, 0.9, 0.0, - 0.5, 0.8]" by simp
  have b: "length (dev_buttons ?hw) = 14" by simp
  have h: "length (dev_hats ?hw) = 1" by simp
  have d: "deadzone (init_state [?j]) = 0.06" by (rule init_state_deadzone)
  have j: "joystick (init_state [?j]) = Some ?j"
    by (simp add: init_state_def find_joystick_def)
  from end_to_end [OF a b h d j] obtain f where
    "poll_phase ?hw (init_state [?j])
       = Inr ((init_state [?j])\<lparr>joystick := Some ?hw, tick_vars := Some f\<rparr>)"
    "drifting_left f = False" "drifting_right f = True" "l2n f = 0.25" "r2n f = 0.8"
    by blast
  then have "\<exists>s' f. poll_phase ?hw (init_state [?j]) = Inr s'
        \<and> tick_vars s' = Some f
        \<and> \<not> drifting_left f \<and> drifting_right f \<and> l2n f = 0.25 \<and> r2n f = 0.8"
    by simp
  with a b h d j show ?thesis by blast
qed

text \<open>
  C8. Frame condition on the configuration: the polling phase (sampling, normalisation and
  drift classification) always returns and leaves \<open>deadzone\<close> and \<open>show_debug\<close> as they
  were, so after a whole iteration both have the values that the event phase gave them;
  an iteration without key events leaves both unchanged. In the event phase only
  \<^verbatim>\<open>K_UP\<close> and \<^verbatim>\<open>K_DOWN\<close> change the deadzone and only \<^verbatim>\<open>K_d\<close> changes the debug flag.
\<close>

theorem config_frame_condition:
  "(\<exists>s'. poll_phase hw s = Inr s' \<and> deadzone s' = deadzone s \<and> show_debug s' = show_debug s)
   \<and> (\<exists>s'. loop_body devs evs hw s = Inr s'
         \<and> deadzone s' = deadzone (foldl (handle_event devs) s evs)
         \<and> show_debug s' = show_debug (foldl (handle_event devs) s evs))
   \<and> ((\<forall>ev \<in> set evs. \<forall>k. ev \<noteq> KEYDOWN k) \<longrightarrow>
        (\<exists>s'. loop_body devs evs hw s = Inr s'
           \<and> deadzone s' = deadzone s \<and> show_debug s' = show_debug s))
   \<and> (ev \<noteq> KEYDOWN K_UP \<and> ev \<noteq> KEYDOWN K_DOWN \<longrightarrow>
        deadzone (handle_event devs s ev) = deadzone s)
   \<and> (ev \<noteq> KEYDOWN K_d \<longrightarrow> show_debug (handle_event devs s ev) = show_debug s)"
proof -
  obtain s1 where s1: "poll_phase hw s = Inr s1"
    using poll_phase_total by blast
  from poll_phase_config [OF s1]
  have a: "\<exists>s'. poll_phase hw s = Inr s' \<and> deadzone s' = deadzone s
      \<and> show_debug s' = show_debug s"
    using s1 by simp
  let ?t = "foldl (handle_event devs) s evs"
  obtain s2 where s2: "poll_phase hw ?t = Inr s2"
    using poll_phase_total by blast
  from poll_phase_config [OF s2] s2
  have b: "\<exists>s'. loop_body devs evs hw s = Inr s'
         \<and> deadzone s' = deadzone ?t \<and> show_debug s' = show_debug ?t"
    by (simp add: loop_body_def)
  have c: "(\<forall>ev \<in> set evs. \<forall>k. ev \<noteq> KEYDOWN k) \<longrightarrow>
        (\<exists>s'. loop_body devs evs hw s = Inr s'
           \<and> deadzone s' = deadzone s \<and> show_debug s' = show_debug s)"
  proof
    assume "\<forall>ev \<in> set evs. \<forall>k. ev \<noteq> KEYDOWN k"
    from foldl_handle_event_config [OF this, of devs s] b
    show "\<exists>s'. loop_body devs evs hw s = Inr s'
           \<and> deadzone s' = deadzone s \<and> show_debug s' = show_debug s"
      by simp
  qed
  have d: "ev \<noteq> KEYDOWN K_UP \<and> ev \<noteq> KEYDOWN K_DOWN \<longrightarrow>
        deadzone (handle_event devs s ev) = deadzone s"
    by (simp add: handle_event_deadzone)
  have e: "ev \<noteq> KEYDOWN K_d \<longrightarrow> show_debug (handle_event devs s ev) = show_debug s"
    by (simp add: handle_event_show_debug)
  from a b c d e show ?thesis by blast
qed

theorem config_frame_condition_witness:
  "(\<exists>s'. loop_body [\<lparr>dev_axes = [0.9], dev_buttons = [], dev_hats = []\<rparr>]
          [QUIT, JOYDEVICEADDED] \<lparr>dev_axes = [0.9], dev_buttons = [], dev_hats = []\<rparr>
          (init_state []) = Inr s'
        \<and> deadzone s' = 0.06 \<and> show_debug s' = True)
   \<and> QUIT \<noteq> KEYDOWN K_UP \<and> QUIT \<noteq> KEYDOWN K_DOWN \<and> QUIT \<noteq> KEYDOWN K_d
   \<and> deadzone (handle_event [] (init_state []) QUIT) = 0.06
   \<and> show_debug (handle_event [] (init_state []) QUIT) = True"
proof -
  let ?d = "\<lparr>dev_axes = [0.9], dev_buttons = [], dev_hats = []\<rparr>"
  have i: "deadzone (init_state []) = 0.06" "show_debug (init_state []) = True"
    by (simp_all add: init_state_def find_joystick_def DEADZONE_def)
  have h: "\<forall>ev \<in> set [QUIT, JOYDEVICEADDED]. \<forall>k. ev \<noteq> KEYDOWN k" by simp
  from config_frame_condition [where s = "init_state []" and devs = "[?d]"
      and evs = "[QUIT, JOYDEVICEADDED]" and hw = ?d and ev = QUIT]
  have 1: "\<exists>s'. loop_body [?d] [QUIT, JOYDEVICEADDED] ?d (init_state []) = Inr s'
        \<and> deadzone s' = 0.06 \<and> show_debug s' = True"
    using h i by simp
  from config_frame_condition [where s = "init_state []" and devs = "[]"
      and evs = "[]" and hw = ?d and ev = QUIT]
  have 2: "deadzone (handle_event [] (init_state []) QUIT) = 0.06
     \<and> show_debug (handle_event [] (init_state []) QUIT) = True"
    using i by simp
  from 1 2 show ?thesis by simp
qed

end
